theory Spec2Isabelle
  imports Complex_Main "HOL-Library.Sublist"
begin

section \<open>The scam detector's scoring pipeline\<close>

text \<open>
  A shallow embedding of \<^verbatim>\<open>fake_job_guru/scam_detector.py\<close>: the helpers
  \<^verbatim>\<open>_safe_int\<close>, \<^verbatim>\<open>_compute_company_strength\<close>, \<^verbatim>\<open>_heuristic_flags\<close>,
  \<^verbatim>\<open>_composite_risk\<close> and the entry point \<^verbatim>\<open>predict_job\<close>.

  Conventions of the embedding.
  \<^item> A Python \<^verbatim>\<open>str\<close> is a \<open>string\<close>; a \<open>char\<close> is read as the code point of the same
    number, so the texts covered are those of code points below 256 (Latin-1).
  \<^item> A Python \<^verbatim>\<open>int\<close> is an \<open>int\<close>. A Python \<^verbatim>\<open>float\<close> is a \<open>real\<close>: arithmetic is
    exact, and rounding error, infinities and NaN are outside the model.
  \<^item> An exception is a value \<open>Inl e\<close> of the result type \<open>error + 'a\<close>.
  \<^item> The pickled classifier is a record of what \<^verbatim>\<open>predict_job\<close> reads from it.
\<close>

subsection \<open>Exceptions\<close>

datatype error = TypeError | ValueError | IndexError

definition bind_res :: "error + 'a \<Rightarrow> ('a \<Rightarrow> error + 'b) \<Rightarrow> error + 'b" where
  "bind_res r f = (case r of Inl e \<Rightarrow> Inl e | Inr v \<Rightarrow> f v)"

subsection \<open>Strings: the methods of \<^verbatim>\<open>str\<close> that the detector calls\<close>

definition newline :: char where
  "newline = char_of (10::nat)"

text \<open>\<^verbatim>\<open>str.isspace\<close> on one character: the white space of Unicode below 256.\<close>

definition py_isspace :: "char \<Rightarrow> bool" where
  "py_isspace c =
     (let n = (of_char c :: nat)
      in (9 \<le> n \<and> n \<le> 13) \<or> (28 \<le> n \<and> n \<le> 32) \<or> n = 133 \<or> n = 160)"

text \<open>\<^verbatim>\<open>str.lower\<close>: \<^verbatim>\<open>A\<close>..\<^verbatim>\<open>Z\<close> and the upper-case letters of Latin-1
  (192..222 without the multiplication sign 215) move up by 32.\<close>

definition lower_char :: "char \<Rightarrow> char" where
  "lower_char c =
     (let n = (of_char c :: nat)
      in if (65 \<le> n \<and> n \<le> 90) \<or> (192 \<le> n \<and> n \<le> 222 \<and> n \<noteq> 215)
         then char_of (n + 32) else c)"

definition py_lower :: "string \<Rightarrow> string" where
  "py_lower s = map lower_char s"

text \<open>\<^verbatim>\<open>sub in s\<close>: \<open>sub\<close> occurs in \<open>s\<close> as a contiguous run.\<close>

fun py_in :: "string \<Rightarrow> string \<Rightarrow> bool" where
  "py_in sub [] = (sub = [])"
| "py_in sub (c # cs) = (prefix sub (c # cs) \<or> py_in sub cs)"

text \<open>\<^verbatim>\<open>s.strip()\<close>: white space removed at both ends.\<close>

definition py_strip :: "string \<Rightarrow> string" where
  "py_strip s = rev (dropWhile py_isspace (rev (dropWhile py_isspace s)))"

text \<open>\<^verbatim>\<open>s.split()\<close>: the maximal runs of characters that are not white space.
  The first argument is the word being read, in reverse.\<close>

fun split_from :: "string \<Rightarrow> string \<Rightarrow> string list" where
  "split_from cur [] = (if cur = [] then [] else [rev cur])"
| "split_from cur (c # cs) =
     (if py_isspace c
      then (if cur = [] then split_from [] cs else rev cur # split_from [] cs)
      else split_from (c # cur) cs)"

definition py_split :: "string \<Rightarrow> string list" where
  "py_split s = split_from [] s"

text \<open>\<^verbatim>\<open>" ".join(parts)\<close>.\<close>

fun join_space :: "string list \<Rightarrow> string" where
  "join_space [] = []"
| "join_space [p] = p"
| "join_space (p # q # ps) = p @ '' '' @ join_space (q # ps)"

text \<open>\<^verbatim>\<open>str(x or "")\<close> for an optional text field: \<^verbatim>\<open>None\<close> and the empty string
  both give the empty string.\<close>

definition str_or_empty :: "string option \<Rightarrow> string" where
  "str_or_empty x = (case x of None \<Rightarrow> [] | Some s \<Rightarrow> s)"

subsection \<open>Regular expressions: \<^verbatim>\<open>re.search\<close> on the patterns of the keyword list\<close>

text \<open>
  \<^verbatim>\<open>predict_job\<close> hands each keyword to \<^verbatim>\<open>re.search\<close> as the pattern. The keywords
  are made of letters, spaces and the two metacharacters \<^verbatim>\<open>.\<close> and \<^verbatim>\<open>$\<close>, so the
  patterns are sequences of three kinds of atom, with Python's meaning under the default
  flags: a literal character matches itself; \<^verbatim>\<open>.\<close> matches any character but a newline;
  \<^verbatim>\<open>$\<close> consumes nothing and matches at the end of the text or just before a newline
  that ends the text.
\<close>

datatype re_atom = Lit char | AnyChar | EndAnchor

definition re_atom_of :: "char \<Rightarrow> re_atom" where
  "re_atom_of c = (if c = CHR ''.'' then AnyChar else if c = CHR ''$'' then EndAnchor else Lit c)"

definition re_compile :: "string \<Rightarrow> re_atom list" where
  "re_compile pat = map re_atom_of pat"

fun re_match_here :: "re_atom list \<Rightarrow> string \<Rightarrow> bool" where
  "re_match_here [] s = True"
| "re_match_here (Lit c # p) s = (case s of [] \<Rightarrow> False | x # xs \<Rightarrow> x = c \<and> re_match_here p xs)"
| "re_match_here (AnyChar # p) s =
     (case s of [] \<Rightarrow> False | x # xs \<Rightarrow> x \<noteq> newline \<and> re_match_here p xs)"
| "re_match_here (EndAnchor # p) s = ((s = [] \<or> s = [newline]) \<and> re_match_here p s)"

fun re_search_atoms :: "re_atom list \<Rightarrow> string \<Rightarrow> bool" where
  "re_search_atoms p [] = re_match_here p []"
| "re_search_atoms p (c # cs) = (re_match_here p (c # cs) \<or> re_search_atoms p cs)"

definition re_search :: "string \<Rightarrow> string \<Rightarrow> bool" where
  "re_search pat s = re_search_atoms (re_compile pat) s"

subsection \<open>The keyword list\<close>

definition SCAM_KEYWORDS :: "string list" where
  "SCAM_KEYWORDS =
     [''work from home'', ''no experience'', ''quick money'',
      ''earn $'', ''gmail.com'', ''telegram'', ''whatsapp'',
      ''fast cash'', ''limited slots'', ''easy income'']"

subsection \<open>Python values and \<^verbatim>\<open>int(value)\<close>\<close>

text \<open>
  The numeric parameters of \<^verbatim>\<open>predict_job\<close> are annotated \<^verbatim>\<open>Optional[int]\<close>, which
  Python does not enforce, and \<^verbatim>\<open>_safe_int\<close> takes \<^verbatim>\<open>Optional[Any]\<close>. A value is
  \<^verbatim>\<open>None\<close>, a bool, an int, a (finite) float, a string, or an object that \<^verbatim>\<open>int\<close>
  rejects with \<^verbatim>\<open>TypeError\<close>, such as a list.
\<close>

datatype pyval = PNone | PBool bool | PInt int | PFloat real | PStr string | PList

definition is_digit :: "char \<Rightarrow> bool" where
  "is_digit c = (let n = (of_char c :: nat) in 48 \<le> n \<and> n \<le> 57)"

definition digit_val :: "char \<Rightarrow> int" where
  "digit_val c = int (of_char c) - 48"

text \<open>The digits after the first one: single underscores may separate digits.\<close>

fun digits_value :: "int \<Rightarrow> string \<Rightarrow> int option" where
  "digits_value acc [] = Some acc"
| "digits_value acc (c # cs) =
     (if is_digit c then digits_value (10 * acc + digit_val c) cs
      else if c = CHR ''_'' then
        (case cs of
           [] \<Rightarrow> None
         | d # ds \<Rightarrow> if is_digit d then digits_value (10 * acc + digit_val d) ds else None)
      else None)"

text \<open>\<^verbatim>\<open>int(s)\<close> for a string: white space around, an optional sign, decimal digits.
  (The interpreter's limit on the number of digits is not modelled.)\<close>

definition int_of_str :: "string \<Rightarrow> error + int" where
  "int_of_str s =
     (let t = py_strip s;
          neg = (t \<noteq> [] \<and> hd t = CHR ''-'');
          body = (if t \<noteq> [] \<and> (hd t = CHR ''-'' \<or> hd t = CHR ''+'') then tl t else t)
      in case body of
           [] \<Rightarrow> Inl ValueError
         | d # ds \<Rightarrow>
             if is_digit d
             then (case digits_value (digit_val d) ds of
                     None \<Rightarrow> Inl ValueError
                   | Some v \<Rightarrow> Inr (if neg then - v else v))
             else Inl ValueError)"

fun py_int :: "pyval \<Rightarrow> error + int" where
  "py_int PNone = Inl TypeError"
| "py_int (PBool b) = Inr (if b then 1 else 0)"
| "py_int (PInt n) = Inr n"
| "py_int (PFloat x) = Inr (if 0 \<le> x then \<lfloor>x\<rfloor> else \<lceil>x\<rceil>)"
| "py_int (PStr s) = int_of_str s"
| "py_int PList = Inl TypeError"

text \<open>\<^verbatim>\<open>_safe_int\<close>: the \<^verbatim>\<open>except\<close> clause catches \<^verbatim>\<open>TypeError\<close> and
  \<^verbatim>\<open>ValueError\<close>; any other exception passes through.\<close>

definition safe_int :: "pyval \<Rightarrow> int \<Rightarrow> error + int" where
  "safe_int v default_value =
     (if v = PNone then Inr default_value
      else case py_int v of
             Inr n \<Rightarrow> Inr n
           | Inl e \<Rightarrow> if e = TypeError \<or> e = ValueError then Inr default_value else Inl e)"

subsection \<open>Company strength\<close>

definition compute_company_strength :: "int \<Rightarrow> int \<Rightarrow> string" where
  "compute_company_strength followers employees =
     (if followers < 500 \<or> employees < 20 then ''weak''
      else if 500 \<le> followers \<and> followers \<le> 5000 then ''medium''
      else ''strong'')"

subsection \<open>Heuristic flags\<close>

record flags =
  h_missing_website_flag :: int
  h_suspicious_email_flag :: int
  h_short_profile_flag :: int
  h_suspicion_score :: int

definition suspicious_contact :: "string \<Rightarrow> int" where
  "suspicious_contact text =
     (let lowered = py_lower text;
          suspicious_terms = [''gmail'', ''yahoo'', ''telegram'', ''whatsapp'']
      in if list_ex (\<lambda>term. py_in term lowered) suspicious_terms then 1 else 0)"

definition heuristic_flags :: "string option \<Rightarrow> string option \<Rightarrow> string option \<Rightarrow> flags" where
  "heuristic_flags company_profile description requirements =
     (let text_profile = (case company_profile of None \<Rightarrow> [] | Some s \<Rightarrow> s);
          text_desc = (case description of None \<Rightarrow> [] | Some s \<Rightarrow> s);
          text_req = (case requirements of None \<Rightarrow> [] | Some s \<Rightarrow> s);
          missing_website_flag =
            (if length text_profile = 0 \<or> \<not> py_in ''http'' (py_lower text_profile)
             then 1 else 0);
          suspicious_email_flag =
            (if suspicious_contact text_desc \<noteq> 0 \<or> suspicious_contact text_req \<noteq> 0
             then 1 else 0);
          short_profile_flag =
            (if length (py_strip text_profile) = 0 \<or> length (py_split text_profile) < 30
             then 1 else 0);
          suspicion_score = missing_website_flag + suspicious_email_flag + short_profile_flag
      in \<lparr>h_missing_website_flag = missing_website_flag,
          h_suspicious_email_flag = suspicious_email_flag,
          h_short_profile_flag = short_profile_flag,
          h_suspicion_score = suspicion_score\<rparr>)"

subsection \<open>Composite risk\<close>

record breakdown =
  model_probability :: real
  bd_weak_company :: real
  bd_suspicion_score :: real
  bd_keyword_hits :: real
  clamped :: bool

record risk =
  score :: real
  risk_parts :: breakdown

definition composite_risk :: "real \<Rightarrow> bool \<Rightarrow> int \<Rightarrow> int \<Rightarrow> risk" where
  "composite_risk prob_scam weak_company suspicion_score keyword_hits =
     (let base = prob_scam;
          contrib_weak_company = (if weak_company then 0.08 else 0.0);
          contrib_suspicion = min 0.12 (0.04 * of_int (max 0 suspicion_score));
          contrib_keywords = min 0.10 (0.03 * of_int (max 0 keyword_hits));
          raw_score = base + contrib_weak_company + contrib_suspicion + contrib_keywords;
          score = max 0.0 (min 1.0 raw_score)
      in \<lparr>score = score,
          risk_parts = \<lparr>model_probability = base,
                         bd_weak_company = contrib_weak_company,
                         bd_suspicion_score = contrib_suspicion,
                         bd_keyword_hits = contrib_keywords,
                         clamped = (score \<noteq> raw_score)\<rparr>\<rparr>)"

subsection \<open>The classifier and the probability of the scam class\<close>

text \<open>
  What \<^verbatim>\<open>predict_job\<close> reads from the loaded artifact: the attribute \<^verbatim>\<open>classes_\<close>
  (\<open>None\<close> when the object has no such attribute), the row of probabilities that
  \<^verbatim>\<open>predict_proba([text])[0]\<close> gives for a text, and the path it was loaded from.
\<close>

record model =
  classes :: "int list option"
  predict_proba :: "string \<Rightarrow> real list"
  model_path :: string

text \<open>\<^verbatim>\<open>xs.index(x)\<close>: the first position of \<open>x\<close>, or \<^verbatim>\<open>ValueError\<close>.\<close>

fun py_index :: "'a list \<Rightarrow> 'a \<Rightarrow> error + nat" where
  "py_index [] x = Inl ValueError"
| "py_index (y # ys) x =
     (if y = x then Inr 0
      else case py_index ys x of Inl e \<Rightarrow> Inl e | Inr i \<Rightarrow> Inr (Suc i))"

text \<open>Lines 148 to 151: the \<^verbatim>\<open>try\<close> block with its \<^verbatim>\<open>except ValueError\<close>.\<close>

definition idx_scam :: "model \<Rightarrow> real list \<Rightarrow> error + nat" where
  "idx_scam m proba =
     (case py_index (case classes m of None \<Rightarrow> [0, 1] | Some cs \<Rightarrow> cs) 1 of
        Inr i \<Rightarrow> Inr i
      | Inl e \<Rightarrow> if e = ValueError then Inr (if length proba > 1 then 1 else 0) else Inl e)"

text \<open>Lines 146 to 152; \<^verbatim>\<open>proba[idx_scam]\<close> raises \<^verbatim>\<open>IndexError\<close> out of range.\<close>

definition prob_scam_of :: "model \<Rightarrow> string \<Rightarrow> error + real" where
  "prob_scam_of m text =
     (let proba = predict_proba m text
      in bind_res (idx_scam m proba)
           (\<lambda>i. if i < length proba then Inr (proba ! i) else Inl IndexError))"

subsection \<open>Rounding for presentation\<close>

text \<open>\<^verbatim>\<open>round(x, ndigits)\<close>: to the nearest multiple of \<open>10 ^ - ndigits\<close>, a tie to the
  even one.\<close>

definition round_half_even :: "real \<Rightarrow> int" where
  "round_half_even x =
     (let f = \<lfloor>x\<rfloor>; d = x - of_int f
      in if d < 1 / 2 then f else if 1 / 2 < d then f + 1 else if even f then f else f + 1)"

definition py_round :: "real \<Rightarrow> nat \<Rightarrow> real" where
  "py_round x ndigits = of_int (round_half_even (x * 10 ^ ndigits)) / 10 ^ ndigits"

subsection \<open>\<^verbatim>\<open>predict_job\<close>\<close>

record job =
  title :: "string option"
  description :: "string option"
  requirements :: "string option"
  company_profile :: "string option"
  followers :: pyval
  employees :: pyval
  engagement :: pyval
  company_strength :: "string option"
  missing_website_flag :: pyval
  suspicious_email_flag :: pyval
  short_profile_flag :: pyval
  suspicion_score :: pyval

record class_probabilities =
  scam :: real
  legit :: real

record job_signals =
  keywords_triggered :: "string list"
  sig_weak_company :: bool
  sig_company_strength :: string
  sig_followers :: int
  sig_employees :: int
  sig_engagement :: int
  sig_missing_website_flag :: int
  sig_suspicious_email_flag :: int
  sig_short_profile_flag :: int
  sig_suspicion_score :: int

record prediction_result =
  prediction :: string
  probabilities :: class_probabilities
  risk_score :: real
  signals :: job_signals
  risk_breakdown :: breakdown
  model_artifact :: string

text \<open>Lines 137 to 142.\<close>

definition job_text :: "job \<Rightarrow> string" where
  "job_text j =
     join_space [str_or_empty (title j), str_or_empty (description j),
                 str_or_empty (requirements j), str_or_empty (company_profile j)]"

text \<open>Line 156.\<close>

definition found_keywords :: "string \<Rightarrow> string list" where
  "found_keywords lowered = filter (\<lambda>kw. re_search kw lowered) SCAM_KEYWORDS"

text \<open>Lines 168 to 173: inside the guard, a parameter that is \<^verbatim>\<open>None\<close> takes the
  heuristic value and any other keeps the caller's.\<close>

definition or_heuristic :: "pyval \<Rightarrow> int \<Rightarrow> pyval" where
  "or_heuristic supplied h = (if supplied = PNone then PInt h else supplied)"

definition predict_job :: "model \<Rightarrow> job \<Rightarrow> error + prediction_result" where
  "predict_job m j =
     (let text = job_text j
      in bind_res (prob_scam_of m text) (\<lambda>prob_scam.
         let lowered = py_lower text;
             found = found_keywords lowered
         in bind_res (safe_int (followers j) 0) (\<lambda>followers_i.
            bind_res (safe_int (employees j) 0) (\<lambda>employees_i.
            bind_res (safe_int (engagement j) 0) (\<lambda>engagement_i.
            let strength =
                  (if company_strength j = None \<or> company_strength j = Some []
                   then compute_company_strength followers_i employees_i
                   else the (company_strength j));
                weak_company = (followers_i < 500 \<or> employees_i < 10 \<or> engagement_i < 5);
                some_missing =
                  (missing_website_flag j = PNone \<or> suspicious_email_flag j = PNone \<or>
                   short_profile_flag j = PNone \<or> suspicion_score j = PNone);
                heur = heuristic_flags (company_profile j) (description j) (requirements j);
                mw = (if some_missing
                      then or_heuristic (missing_website_flag j) (h_missing_website_flag heur)
                      else missing_website_flag j);
                se = (if some_missing
                      then or_heuristic (suspicious_email_flag j) (h_suspicious_email_flag heur)
                      else suspicious_email_flag j);
                sp = (if some_missing
                      then or_heuristic (short_profile_flag j) (h_short_profile_flag heur)
                      else short_profile_flag j);
                ss = (if some_missing
                      then or_heuristic (suspicion_score j) (h_suspicion_score heur)
                      else suspicion_score j)
            in bind_res (py_int ss) (\<lambda>ss_risk.
               let risk = composite_risk prob_scam weak_company ss_risk (int (length found));
                   prediction_label = (if prob_scam \<ge> 0.5 then ''scam'' else ''legit'')
               in bind_res (py_int mw) (\<lambda>mw_i.
                  bind_res (py_int se) (\<lambda>se_i.
                  bind_res (py_int sp) (\<lambda>sp_i.
                  bind_res (py_int ss) (\<lambda>ss_i.
                  Inr \<lparr>prediction = prediction_label,
                       probabilities = \<lparr>scam = py_round prob_scam 4,
                                        legit = py_round (1.0 - prob_scam) 4\<rparr>,
                       risk_score = py_round (score risk) 4,
                       signals = \<lparr>keywords_triggered = found,
                                  sig_weak_company = weak_company,
                                  sig_company_strength = strength,
                                  sig_followers = followers_i,
                                  sig_employees = employees_i,
                                  sig_engagement = engagement_i,
                                  sig_missing_website_flag = mw_i,
                                  sig_suspicious_email_flag = se_i,
                                  sig_short_profile_flag = sp_i,
                                  sig_suspicion_score = ss_i\<rparr>,
                       risk_breakdown = risk_parts risk,
                       model_artifact = model_path m\<rparr>))))))))))"

subsection \<open>Sample inputs\<close>

text \<open>A job with every parameter left at its default \<^verbatim>\<open>None\<close>.\<close>

definition empty_job :: job where
  "empty_job =
     \<lparr>title = None, description = None, requirements = None, company_profile = None,
      followers = PNone, employees = PNone, engagement = PNone, company_strength = None,
      missing_website_flag = PNone, suspicious_email_flag = PNone,
      short_profile_flag = PNone, suspicion_score = PNone\<rparr>"

text \<open>The posting of the module's self-test, also used by \<^verbatim>\<open>verify_setup.py\<close>.\<close>

definition scam_test :: job where
  "scam_test =
     empty_job\<lparr>title := Some ''Data Entry Clerk'',
       description :=
         Some ''Earn $500/day working from home. No experience required. Apply via Gmail.'',
       requirements := Some ''Basic typing skills'',
       company_profile := Some ''Small startup'',
       followers := PInt 120, employees := PInt 3, engagement := PInt 1\<rparr>"

text \<open>A classifier with the usual class order that gives every text the same row.\<close>

definition const_model :: "int list option \<Rightarrow> real list \<Rightarrow> model" where
  "const_model cs row = \<lparr>classes = cs, predict_proba = (\<lambda>text. row), model_path = ''scam_detector.pkl''\<rparr>"

text \<open>The self-test posting again, with enrichment values of a large company and a
  suspicion score of 0 supplied by the caller.\<close>

definition override_test :: job where
  "override_test =
     scam_test\<lparr>followers := PInt 450000, employees := PInt 1200, engagement := PInt 200,
       company_strength := Some ''strong'', suspicion_score := PInt 0\<rparr>"

text \<open>A posting whose company profile has exactly thirty words.\<close>

definition thirty_word_job :: job where
  "thirty_word_job =
     empty_job\<lparr>company_profile :=
       Some ''we build tools for small teams and ship them to customers in many countries every single week of the year with care and with pride since the very first day''\<rparr>"

text \<open>The heuristic flags of a job: the call of line 169.\<close>

abbreviation heur_of :: "job \<Rightarrow> flags" where
  "heur_of j \<equiv> heuristic_flags (company_profile j) (description j) (requirements j)"

section \<open>Properties\<close>

subsection \<open>Results and exceptions\<close>

lemma bind_res_Inr [simp]: "bind_res (Inr v) f = f v"
  by (simp add: bind_res_def)

lemma bind_res_Inl [simp]: "bind_res (Inl e) f = Inl e"
  by (simp add: bind_res_def)

lemma bind_res_eq_Inr: "bind_res r f = Inr y \<longleftrightarrow> (\<exists>v. r = Inr v \<and> f v = Inr y)"
  by (cases r) simp_all

lemma py_int_error: "py_int v = Inl e \<Longrightarrow> e = TypeError \<or> e = ValueError"
  by (cases v) (auto simp: int_of_str_def Let_def split: list.splits if_splits option.splits)

lemma safe_int_total: "\<exists>n. safe_int v d = Inr n"
proof (cases "py_int v")
  case (Inl e)
  then show ?thesis using py_int_error [OF Inl] by (auto simp: safe_int_def)
next
  case (Inr n)
  then show ?thesis by (simp add: safe_int_def)
qed

lemma safe_int_PInt: "safe_int (PInt n) d = Inr n"
  by (simp add: safe_int_def)








subsection \<open>What a returned result is made of\<close>

lemma bind_resE:
  assumes "bind_res r f = Inr y"
  obtains v where "r = Inr v" and "f v = Inr y"
  using assms by (cases r) simp_all

lemma or_heuristic_guard:
  "(if a = PNone \<or> b = PNone \<or> c = PNone \<or> d = PNone then or_heuristic a h else a) = or_heuristic a h"
  "(if a = PNone \<or> b = PNone \<or> c = PNone \<or> d = PNone then or_heuristic b h else b) = or_heuristic b h"
  "(if a = PNone \<or> b = PNone \<or> c = PNone \<or> d = PNone then or_heuristic c h else c) = or_heuristic c h"
  "(if a = PNone \<or> b = PNone \<or> c = PNone \<or> d = PNone then or_heuristic d h else d) = or_heuristic d h"
  by (simp_all add: or_heuristic_def)

lemma predict_job_InrD:
  assumes "predict_job m j = Inr r"
  shows "\<exists>p fi ei gi mw se sp ss.
        prob_scam_of m (job_text j) = Inr p \<and>
        safe_int (followers j) 0 = Inr fi \<and>
        safe_int (employees j) 0 = Inr ei \<and>
        safe_int (engagement j) 0 = Inr gi \<and>
        py_int (or_heuristic (missing_website_flag j) (h_missing_website_flag (heur_of j))) = Inr mw \<and>
        py_int (or_heuristic (suspicious_email_flag j) (h_suspicious_email_flag (heur_of j))) = Inr se \<and>
        py_int (or_heuristic (short_profile_flag j) (h_short_profile_flag (heur_of j))) = Inr sp \<and>
        py_int (or_heuristic (suspicion_score j) (h_suspicion_score (heur_of j))) = Inr ss \<and>
        r = \<lparr>prediction = (if p \<ge> 0.5 then ''scam'' else ''legit''),
             probabilities = \<lparr>scam = py_round p 4, legit = py_round (1.0 - p) 4\<rparr>,
             risk_score =
               py_round (score (composite_risk p (fi < 500 \<or> ei < 10 \<or> gi < 5) ss
                  (int (length (found_keywords (py_lower (job_text j))))))) 4,
             signals =
               \<lparr>keywords_triggered = found_keywords (py_lower (job_text j)),
                sig_weak_company = (fi < 500 \<or> ei < 10 \<or> gi < 5),
                sig_company_strength =
                  (if company_strength j = None \<or> company_strength j = Some []
                   then compute_company_strength fi ei else the (company_strength j)),
                sig_followers = fi, sig_employees = ei, sig_engagement = gi,
                sig_missing_website_flag = mw, sig_suspicious_email_flag = se,
                sig_short_profile_flag = sp, sig_suspicion_score = ss\<rparr>,
             risk_breakdown =
               risk_parts (composite_risk p (fi < 500 \<or> ei < 10 \<or> gi < 5) ss
                  (int (length (found_keywords (py_lower (job_text j)))))),
             model_artifact = model_path m\<rparr>"
  using assms unfolding predict_job_def Let_def or_heuristic_guard
  apply (elim bind_resE)
  apply (simp only: sum.inject)
  apply hypsubst
  apply (intro exI conjI)
  apply (rule refl)+
  done

lemma predict_job_InrE:
  assumes "predict_job m j = Inr r"
  obtains p fi ei gi where
    "prob_scam_of m (job_text j) = Inr p"
    "safe_int (followers j) 0 = Inr fi"
    "safe_int (employees j) 0 = Inr ei"
    "safe_int (engagement j) 0 = Inr gi"
    "py_int (or_heuristic (missing_website_flag j) (h_missing_website_flag (heur_of j)))
       = Inr (sig_missing_website_flag (signals r))"
    "py_int (or_heuristic (suspicious_email_flag j) (h_suspicious_email_flag (heur_of j)))
       = Inr (sig_suspicious_email_flag (signals r))"
    "py_int (or_heuristic (short_profile_flag j) (h_short_profile_flag (heur_of j)))
       = Inr (sig_short_profile_flag (signals r))"
    "py_int (or_heuristic (suspicion_score j) (h_suspicion_score (heur_of j)))
       = Inr (sig_suspicion_score (signals r))"
    "prediction r = (if p \<ge> 0.5 then ''scam'' else ''legit'')"
    "probabilities r = \<lparr>scam = py_round p 4, legit = py_round (1.0 - p) 4\<rparr>"
    "risk_score r =
       py_round (score (composite_risk p (sig_weak_company (signals r))
          (sig_suspicion_score (signals r)) (int (length (keywords_triggered (signals r)))))) 4"
    "risk_breakdown r =
       risk_parts (composite_risk p (sig_weak_company (signals r))
          (sig_suspicion_score (signals r)) (int (length (keywords_triggered (signals r)))))"
    "keywords_triggered (signals r) = found_keywords (py_lower (job_text j))"
    "sig_weak_company (signals r) = (fi < 500 \<or> ei < 10 \<or> gi < 5)"
    "sig_company_strength (signals r) =
       (if company_strength j = None \<or> company_strength j = Some []
        then compute_company_strength fi ei else the (company_strength j))"
    "sig_followers (signals r) = fi"
    "sig_employees (signals r) = ei"
    "sig_engagement (signals r) = gi"
    "model_artifact r = model_path m"
proof -
  from predict_job_InrD [OF assms] show thesis
    apply (elim exE conjE)
    apply (rule that)
    apply (simp_all (no_asm_simp))
    done
qed

lemma predict_job_returns:
  assumes "prob_scam_of m (job_text j) = Inr p"
    and "py_int (or_heuristic (missing_website_flag j) (h_missing_website_flag (heur_of j))) = Inr mw"
    and "py_int (or_heuristic (suspicious_email_flag j) (h_suspicious_email_flag (heur_of j))) = Inr se"
    and "py_int (or_heuristic (short_profile_flag j) (h_short_profile_flag (heur_of j))) = Inr sp"
    and "py_int (or_heuristic (suspicion_score j) (h_suspicion_score (heur_of j))) = Inr ss"
  shows "\<exists>r. predict_job m j = Inr r"
proof -
  obtain fi where fi: "safe_int (followers j) 0 = Inr fi" using safe_int_total by blast
  obtain ei where ei: "safe_int (employees j) 0 = Inr ei" using safe_int_total by blast
  obtain gi where gi: "safe_int (engagement j) 0 = Inr gi" using safe_int_total by blast
  show ?thesis
    unfolding predict_job_def Let_def or_heuristic_guard
    by (simp add: assms fi ei gi)
qed

text \<open>When the model yields a probability and every flag and the suspicion score is
  \<^verbatim>\<open>None\<close> or an integer, \<^verbatim>\<open>predict_job\<close> returns a result, whatever the values of
  followers, employees and engagement.\<close>

lemma or_heuristic_int:
  assumes "v = PNone \<or> (\<exists>n. v = PInt n)"
  shows "\<exists>x. py_int (or_heuristic v h) = Inr x"
  using assms by (auto simp: or_heuristic_def)

lemma predict_job_returns_on_ints:
  assumes "prob_scam_of m (job_text j) = Inr p"
    and "missing_website_flag j = PNone \<or> (\<exists>n. missing_website_flag j = PInt n)"
    and "suspicious_email_flag j = PNone \<or> (\<exists>n. suspicious_email_flag j = PInt n)"
    and "short_profile_flag j = PNone \<or> (\<exists>n. short_profile_flag j = PInt n)"
    and "suspicion_score j = PNone \<or> (\<exists>n. suspicion_score j = PInt n)"
  shows "\<exists>r. predict_job m j = Inr r"
proof -
  obtain mw where mw:
    "py_int (or_heuristic (missing_website_flag j) (h_missing_website_flag (heur_of j))) = Inr mw"
    using or_heuristic_int [OF assms(2)] by blast
  obtain se where se:
    "py_int (or_heuristic (suspicious_email_flag j) (h_suspicious_email_flag (heur_of j))) = Inr se"
    using or_heuristic_int [OF assms(3)] by blast
  obtain sp where sp:
    "py_int (or_heuristic (short_profile_flag j) (h_short_profile_flag (heur_of j))) = Inr sp"
    using or_heuristic_int [OF assms(4)] by blast
  obtain ss where ss:
    "py_int (or_heuristic (suspicion_score j) (h_suspicion_score (heur_of j))) = Inr ss"
    using or_heuristic_int [OF assms(5)] by blast
  from assms(1) mw se sp ss show ?thesis by (rule predict_job_returns)
qed

subsection \<open>The risk composer\<close>







subsection \<open>Sample runs\<close>

lemma scam_test_text:
  "py_lower (job_text scam_test) =
     ''data entry clerk earn $500/day working from home. no experience required. apply via gmail. basic typing skills small startup''"
  by code_simp

lemma predict_scam_test:
  "predict_job (const_model (Some [0, 1]) [0.3, 0.7]) scam_test =
   Inr \<lparr>prediction = ''scam'',
        probabilities = \<lparr>scam = 0.7, legit = 0.3\<rparr>,
        risk_score = 0.93,
        signals =
          \<lparr>keywords_triggered = [''no experience''],
             sig_weak_company = True, sig_company_strength = ''weak'',
             sig_followers = 120, sig_employees = 3, sig_engagement = 1,
             sig_missing_website_flag = 1, sig_suspicious_email_flag = 1,
             sig_short_profile_flag = 1, sig_suspicion_score = 3\<rparr>,
        risk_breakdown =
          \<lparr>model_probability = 0.7, bd_weak_company = 0.08,
             bd_suspicion_score = 0.12, bd_keyword_hits = 0.03,
             clamped = False\<rparr>,
        model_artifact = ''scam_detector.pkl''\<rparr>"
  by code_simp

lemma earn_at_the_end:
  "py_lower (job_text (empty_job\<lparr>requirements := Some ''I want to earn''\<rparr>)) = ''  i want to earn ''"
  by code_simp

subsection \<open>Keyword matching\<close>

text \<open>
  Claim C1 says that a keyword is reported exactly when its text occurs literally in the
  lower-cased posting. The code gives the keyword to \<^verbatim>\<open>re.search\<close> unescaped, so
  the \<^verbatim>\<open>$\<close> of \<^verbatim>\<open>earn $\<close> is an end anchor. On the posting of the module's own self-test
  the text \<^verbatim>\<open>earn $\<close> occurs (in \<^verbatim>\<open>earn $500/day\<close>) and the keyword is not reported: the
  only keyword reported is \<^verbatim>\<open>no experience\<close>. Conversely, a posting whose requirements end
  in \<^verbatim>\<open>earn\<close>, and whose company profile is missing, is reported to contain \<^verbatim>\<open>earn $\<close>
  although no dollar sign occurs in it.
\<close>

theorem keywords_are_patterns:
  "py_in ''earn $'' (py_lower (job_text scam_test)) \<and>
   (case predict_job (const_model (Some [0, 1]) [0.3, 0.7]) scam_test of
      Inr r \<Rightarrow> keywords_triggered (signals r) = [''no experience'']
    | Inl e \<Rightarrow> False) \<and>
   found_keywords (py_lower (job_text (empty_job\<lparr>requirements := Some ''I want to earn''\<rparr>)))
     = [''earn $''] \<and>
   \<not> py_in ''earn $'' (py_lower (job_text (empty_job\<lparr>requirements := Some ''I want to earn''\<rparr>)))"
proof (intro conjI)
  show "py_in ''earn $'' (py_lower (job_text scam_test))"
    unfolding scam_test_text by code_simp
  show "case predict_job (const_model (Some [0, 1]) [0.3, 0.7]) scam_test of
      Inr r \<Rightarrow> keywords_triggered (signals r) = [''no experience'']
    | Inl e \<Rightarrow> False"
    unfolding predict_scam_test by simp
  show "found_keywords (py_lower (job_text (empty_job\<lparr>requirements := Some ''I want to earn''\<rparr>)))
     = [''earn $'']"
    unfolding earn_at_the_end by code_simp
  show "\<not> py_in ''earn $'' (py_lower (job_text (empty_job\<lparr>requirements := Some ''I want to earn''\<rparr>)))"
    unfolding earn_at_the_end by code_simp
qed

subsection \<open>Integer coercion\<close>

text \<open>
  Claim C2 says that \<^verbatim>\<open>predict_job\<close> never raises and that every numeric field that
  cannot be coerced to an integer becomes 0. The code passes \<^verbatim>\<open>followers\<close>,
  \<^verbatim>\<open>employees\<close> and \<^verbatim>\<open>engagement\<close> through \<^verbatim>\<open>_safe_int\<close>, but calls \<^verbatim>\<open>int\<close>
  directly on the three flags and on \<^verbatim>\<open>suspicion_score\<close>: the string \<^verbatim>\<open>abc\<close> as
  \<^verbatim>\<open>suspicion_score\<close> raises \<^verbatim>\<open>ValueError\<close>, a list as \<^verbatim>\<open>short_profile_flag\<close> raises
  \<^verbatim>\<open>TypeError\<close>, while the same string as \<^verbatim>\<open>followers\<close> is replaced by 0.
\<close>

theorem flags_bypass_safe_int:
  "predict_job (const_model (Some [0, 1]) [0.3, 0.7]) (empty_job\<lparr>suspicion_score := PStr ''abc''\<rparr>)
     = Inl ValueError \<and>
   predict_job (const_model (Some [0, 1]) [0.3, 0.7]) (empty_job\<lparr>short_profile_flag := PList\<rparr>)
     = Inl TypeError \<and>
   (case predict_job (const_model (Some [0, 1]) [0.3, 0.7]) (empty_job\<lparr>followers := PStr ''abc''\<rparr>) of
      Inr r \<Rightarrow> sig_followers (signals r) = 0
    | Inl e \<Rightarrow> False)"
proof (intro conjI)
  show "predict_job (const_model (Some [0, 1]) [0.3, 0.7]) (empty_job\<lparr>suspicion_score := PStr ''abc''\<rparr>)
     = Inl ValueError"
    by code_simp
  show "predict_job (const_model (Some [0, 1]) [0.3, 0.7]) (empty_job\<lparr>short_profile_flag := PList\<rparr>)
     = Inl TypeError"
    by code_simp
  show "case predict_job (const_model (Some [0, 1]) [0.3, 0.7]) (empty_job\<lparr>followers := PStr ''abc''\<rparr>) of
      Inr r \<Rightarrow> sig_followers (signals r) = 0
    | Inl e \<Rightarrow> False"
    by code_simp
qed

subsection \<open>The composite score\<close>



subsection \<open>The probability of the scam class\<close>





subsection \<open>The label and the model's output\<close>

lemma predict_scam_test_low:
  "predict_job (const_model (Some [0, 1]) [0.55, 0.45]) scam_test =
   Inr \<lparr>prediction = ''legit'',
        probabilities = \<lparr>scam = 0.45, legit = 0.55\<rparr>,
        risk_score = 0.68,
        signals =
          \<lparr>keywords_triggered = [''no experience''],
             sig_weak_company = True, sig_company_strength = ''weak'',
             sig_followers = 120, sig_employees = 3, sig_engagement = 1,
             sig_missing_website_flag = 1, sig_suspicious_email_flag = 1,
             sig_short_profile_flag = 1, sig_suspicion_score = 3\<rparr>,
        risk_breakdown =
          \<lparr>model_probability = 0.45, bd_weak_company = 0.08,
             bd_suspicion_score = 0.12, bd_keyword_hits = 0.03,
             clamped = False\<rparr>,
        model_artifact = ''scam_detector.pkl''\<rparr>"
  by code_simp

text \<open>
  Claim C5. Whenever \<^verbatim>\<open>predict_job\<close> returns, the label is \<^verbatim>\<open>scam\<close> exactly when the
  probability that the model gives the scam class is at least 0.5, and \<^verbatim>\<open>legit\<close> exactly
  when it is below 0.5: the label is a function of the model probability alone, whatever
  the heuristic contributions and the composite score are.
\<close>

theorem label_is_model_threshold:
  assumes "predict_job m j = Inr r"
  shows "\<exists>p. prob_scam_of m (job_text j) = Inr p \<and>
             (prediction r = ''scam'' \<longleftrightarrow> 0.5 \<le> p) \<and>
             (prediction r = ''legit'' \<longleftrightarrow> p < 0.5)"
proof -
  from assms obtain p where
    p: "prob_scam_of m (job_text j) = Inr p" and
    l: "prediction r = (if p \<ge> 0.5 then ''scam'' else ''legit'')"
    by (rule predict_job_InrE)
  have "(prediction r = ''scam'' \<longleftrightarrow> 0.5 \<le> p) \<and> (prediction r = ''legit'' \<longleftrightarrow> p < 0.5)"
    unfolding l by (cases "0.5 \<le> p") simp_all
  with p show ?thesis by blast
qed

theorem label_is_model_threshold_witness:
  "\<exists>r p. predict_job (const_model (Some [0, 1]) [0.55, 0.45]) scam_test = Inr r \<and>
         prob_scam_of (const_model (Some [0, 1]) [0.55, 0.45]) (job_text scam_test) = Inr p \<and>
         p < 0.5 \<and> prediction r = ''legit'' \<and> 0.5 \<le> risk_score r"
proof -
  let ?r = "\<lparr>prediction = ''legit'',
        probabilities = \<lparr>scam = 0.45, legit = 0.55\<rparr>,
        risk_score = 0.68,
        signals =
          \<lparr>keywords_triggered = [''no experience''],
             sig_weak_company = True, sig_company_strength = ''weak'',
             sig_followers = 120, sig_employees = 3, sig_engagement = 1,
             sig_missing_website_flag = 1, sig_suspicious_email_flag = 1,
             sig_short_profile_flag = 1, sig_suspicion_score = 3\<rparr>,
        risk_breakdown =
          \<lparr>model_probability = 0.45, bd_weak_company = 0.08,
             bd_suspicion_score = 0.12, bd_keyword_hits = 0.03,
             clamped = False\<rparr>,
        model_artifact = ''scam_detector.pkl''\<rparr>"
  have ret: "predict_job (const_model (Some [0, 1]) [0.55, 0.45]) scam_test = Inr ?r"
    by (rule predict_scam_test_low)
  from label_is_model_threshold [OF ret] obtain p where
    p: "prob_scam_of (const_model (Some [0, 1]) [0.55, 0.45]) (job_text scam_test) = Inr p" and
    iff: "prediction ?r = ''legit'' \<longleftrightarrow> p < 0.5"
    by blast
  have "prediction ?r = ''legit''" by simp
  with iff have "p < 0.5" by blast
  moreover have "prediction ?r = ''legit''" by simp
  moreover have "0.5 \<le> risk_score ?r" by simp
  ultimately show ?thesis using ret p by blast
qed

text \<open>
  Claim C10. Two calls of \<^verbatim>\<open>predict_job\<close> with the same four text fields return the same
  label and the same probabilities, whatever the two calls pass for followers, employees,
  engagement, company strength, the three flags and the suspicion score.
\<close>

theorem enrichment_does_not_reach_model_output:
  assumes "predict_job m j1 = Inr r1" and "predict_job m j2 = Inr r2"
    and "title j1 = title j2" and "description j1 = description j2"
    and "requirements j1 = requirements j2" and "company_profile j1 = company_profile j2"
  shows "prediction r1 = prediction r2 \<and> probabilities r1 = probabilities r2"
proof -
  have same_text: "job_text j1 = job_text j2"
    using assms(3-6) by (simp add: job_text_def)
  from assms(1) obtain p1 where
    p1: "prob_scam_of m (job_text j1) = Inr p1" and
    l1: "prediction r1 = (if p1 \<ge> 0.5 then ''scam'' else ''legit'')" and
    q1: "probabilities r1 = \<lparr>scam = py_round p1 4, legit = py_round (1.0 - p1) 4\<rparr>"
    by (rule predict_job_InrE)
  from assms(2) obtain p2 where
    p2: "prob_scam_of m (job_text j2) = Inr p2" and
    l2: "prediction r2 = (if p2 \<ge> 0.5 then ''scam'' else ''legit'')" and
    q2: "probabilities r2 = \<lparr>scam = py_round p2 4, legit = py_round (1.0 - p2) 4\<rparr>"
    by (rule predict_job_InrE)
  have "p1 = p2" using p1 p2 same_text by simp
  then show ?thesis by (simp only: l1 l2 q1 q2 simp_thms)
qed

lemma predict_override_test:
  "predict_job (const_model (Some [0, 1]) [0.3, 0.7]) override_test =
   Inr \<lparr>prediction = ''scam'',
        probabilities = \<lparr>scam = 0.7, legit = 0.3\<rparr>,
        risk_score = 0.73,
        signals =
          \<lparr>keywords_triggered = [''no experience''],
             sig_weak_company = False, sig_company_strength = ''strong'',
             sig_followers = 450000, sig_employees = 1200, sig_engagement = 200,
             sig_missing_website_flag = 1, sig_suspicious_email_flag = 1,
             sig_short_profile_flag = 1, sig_suspicion_score = 0\<rparr>,
        risk_breakdown =
          \<lparr>model_probability = 0.7, bd_weak_company = 0.0,
             bd_suspicion_score = 0.0, bd_keyword_hits = 0.03,
             clamped = False\<rparr>,
        model_artifact = ''scam_detector.pkl''\<rparr>"
  by code_simp

theorem enrichment_does_not_reach_model_output_witness:
  "\<exists>r1 r2.
     predict_job (const_model (Some [0, 1]) [0.3, 0.7]) scam_test = Inr r1 \<and>
     predict_job (const_model (Some [0, 1]) [0.3, 0.7]) override_test = Inr r2 \<and>
     followers scam_test \<noteq> followers override_test \<and>
     suspicion_score scam_test \<noteq> suspicion_score override_test \<and>
     risk_score r1 \<noteq> risk_score r2 \<and>
     prediction r1 = prediction r2 \<and> probabilities r1 = probabilities r2"
proof -
  have same: "title scam_test = title override_test"
    "description scam_test = description override_test"
    "requirements scam_test = requirements override_test"
    "company_profile scam_test = company_profile override_test"
    by (simp_all add: override_test_def)
  have differ: "followers scam_test \<noteq> followers override_test"
    "suspicion_score scam_test \<noteq> suspicion_score override_test"
    by (simp_all add: override_test_def scam_test_def empty_job_def)
  note out = enrichment_does_not_reach_model_output
    [OF predict_scam_test predict_override_test same]
  show ?thesis
    apply (intro exI conjI)
          apply (rule predict_scam_test)
         apply (rule predict_override_test)
        apply (rule differ(1))
       apply (rule differ(2))
      apply simp
     apply (rule out [THEN conjunct1])
    apply (rule out [THEN conjunct2])
    done
qed

subsection \<open>Caller-supplied and derived flags\<close>

lemma or_heuristic_result:
  assumes "py_int (or_heuristic v h) = Inr x"
  shows "(v = PNone \<longrightarrow> x = h) \<and> (\<forall>n. v = PInt n \<longrightarrow> x = n) \<and>
         (v \<noteq> PNone \<longrightarrow> py_int v = Inr x)"
  using assms by (auto simp: or_heuristic_def)

text \<open>
  Claim C6. For each of the four fields \<^verbatim>\<open>missing_website_flag\<close>,
  \<^verbatim>\<open>suspicious_email_flag\<close>, \<^verbatim>\<open>short_profile_flag\<close> and \<^verbatim>\<open>suspicion_score\<close>, on its own:
  when the caller omits it (\<^verbatim>\<open>None\<close>) the returned value is the heuristic one, derived
  from the text; when the caller supplies an integer, that integer is returned as it
  is, and in general the returned value is \<^verbatim>\<open>int\<close> of what was supplied. Nothing is
  recomputed or checked against the other fields.
\<close>

theorem supplied_fields_are_returned:
  assumes "predict_job m j = Inr r"
  shows
    "(missing_website_flag j = PNone \<longrightarrow>
        sig_missing_website_flag (signals r) = h_missing_website_flag (heur_of j)) \<and>
     (\<forall>n. missing_website_flag j = PInt n \<longrightarrow> sig_missing_website_flag (signals r) = n) \<and>
     (missing_website_flag j \<noteq> PNone \<longrightarrow>
        py_int (missing_website_flag j) = Inr (sig_missing_website_flag (signals r))) \<and>
     (suspicious_email_flag j = PNone \<longrightarrow>
        sig_suspicious_email_flag (signals r) = h_suspicious_email_flag (heur_of j)) \<and>
     (\<forall>n. suspicious_email_flag j = PInt n \<longrightarrow> sig_suspicious_email_flag (signals r) = n) \<and>
     (suspicious_email_flag j \<noteq> PNone \<longrightarrow>
        py_int (suspicious_email_flag j) = Inr (sig_suspicious_email_flag (signals r))) \<and>
     (short_profile_flag j = PNone \<longrightarrow>
        sig_short_profile_flag (signals r) = h_short_profile_flag (heur_of j)) \<and>
     (\<forall>n. short_profile_flag j = PInt n \<longrightarrow> sig_short_profile_flag (signals r) = n) \<and>
     (short_profile_flag j \<noteq> PNone \<longrightarrow>
        py_int (short_profile_flag j) = Inr (sig_short_profile_flag (signals r))) \<and>
     (suspicion_score j = PNone \<longrightarrow>
        sig_suspicion_score (signals r) = h_suspicion_score (heur_of j)) \<and>
     (\<forall>n. suspicion_score j = PInt n \<longrightarrow> sig_suspicion_score (signals r) = n) \<and>
     (suspicion_score j \<noteq> PNone \<longrightarrow>
        py_int (suspicion_score j) = Inr (sig_suspicion_score (signals r)))"
proof -
  have mw: "py_int (or_heuristic (missing_website_flag j) (h_missing_website_flag (heur_of j)))
       = Inr (sig_missing_website_flag (signals r))"
    using assms by (rule predict_job_InrE)
  have se: "py_int (or_heuristic (suspicious_email_flag j) (h_suspicious_email_flag (heur_of j)))
       = Inr (sig_suspicious_email_flag (signals r))"
    using assms by (rule predict_job_InrE)
  have sp: "py_int (or_heuristic (short_profile_flag j) (h_short_profile_flag (heur_of j)))
       = Inr (sig_short_profile_flag (signals r))"
    using assms by (rule predict_job_InrE)
  have ss: "py_int (or_heuristic (suspicion_score j) (h_suspicion_score (heur_of j)))
       = Inr (sig_suspicion_score (signals r))"
    using assms by (rule predict_job_InrE)
  show ?thesis
    using or_heuristic_result [OF mw] or_heuristic_result [OF se]
      or_heuristic_result [OF sp] or_heuristic_result [OF ss]
    by (intro conjI) blast+
qed

theorem supplied_fields_are_returned_witness:
  "\<exists>r. predict_job (const_model (Some [0, 1]) [0.3, 0.7]) override_test = Inr r \<and>
        suspicion_score override_test = PInt 0 \<and>
        h_suspicion_score (heur_of override_test) = 3 \<and>
        sig_suspicion_score (signals r) = 0 \<and>
        missing_website_flag override_test = PNone \<and>
        sig_missing_website_flag (signals r) = h_missing_website_flag (heur_of override_test)"
proof -
  note out = supplied_fields_are_returned [OF predict_override_test]
  have s0: "suspicion_score override_test = PInt 0"
    by (simp add: override_test_def)
  have m0: "missing_website_flag override_test = PNone"
    by (simp add: override_test_def scam_test_def empty_job_def)
  have h3: "h_suspicion_score (heur_of override_test) = 3"
    by code_simp
  show ?thesis
    apply (intro exI conjI)
         apply (rule predict_override_test)
        apply (rule s0)
       apply (rule h3)
      apply simp
     apply (rule m0)
    using out m0 apply blast
    done
qed

lemma strip_empty_all_space:
  assumes "py_strip s = []"
  shows "\<forall>c\<in>set s. py_isspace c"
proof -
  from assms have "dropWhile py_isspace (rev (dropWhile py_isspace s)) = []"
    by (simp add: py_strip_def)
  then have all: "\<forall>c\<in>set (dropWhile py_isspace s). py_isspace c"
    by (simp add: dropWhile_eq_Nil_conv)
  have "dropWhile py_isspace s = []"
  proof (rule ccontr)
    assume ne: "dropWhile py_isspace s \<noteq> []"
    then have "\<not> py_isspace (hd (dropWhile py_isspace s))" by (rule hd_dropWhile)
    moreover have "hd (dropWhile py_isspace s) \<in> set (dropWhile py_isspace s)"
      using ne by (rule hd_in_set)
    ultimately show False using all by blast
  qed
  then show ?thesis by (simp add: dropWhile_eq_Nil_conv)
qed

lemma split_all_space:
  assumes "\<forall>c\<in>set s. py_isspace c"
  shows "split_from [] s = []"
  using assms by (induction s) simp_all

lemma strip_empty_split_short:
  assumes "py_strip t = []"
  shows "length (py_split t) < 30"
proof -
  have "py_split t = []"
    unfolding py_split_def using assms by (intro split_all_space strip_empty_all_space)
  then show ?thesis by simp
qed

lemma heuristic_flags_fields:
  "h_missing_website_flag (heuristic_flags cp d rq) \<in> {0, 1} \<and>
   h_suspicious_email_flag (heuristic_flags cp d rq) \<in> {0, 1} \<and>
   h_short_profile_flag (heuristic_flags cp d rq) =
     (if length (py_split (case cp of None \<Rightarrow> [] | Some s \<Rightarrow> s)) < 30 then 1 else 0) \<and>
   h_suspicion_score (heuristic_flags cp d rq) =
     h_missing_website_flag (heuristic_flags cp d rq)
     + h_suspicious_email_flag (heuristic_flags cp d rq)
     + h_short_profile_flag (heuristic_flags cp d rq)"
  by (auto simp add: heuristic_flags_def Let_def strip_empty_split_short)

lemma predict_thirty_word_job:
  "predict_job (const_model (Some [0, 1]) [0.3, 0.7]) thirty_word_job =
   Inr \<lparr>prediction = ''scam'',
        probabilities = \<lparr>scam = 0.7, legit = 0.3\<rparr>,
        risk_score = 0.82,
        signals =
          \<lparr>keywords_triggered = [],
             sig_weak_company = True, sig_company_strength = ''weak'',
             sig_followers = 0, sig_employees = 0, sig_engagement = 0,
             sig_missing_website_flag = 1, sig_suspicious_email_flag = 0,
             sig_short_profile_flag = 0, sig_suspicion_score = 1\<rparr>,
        risk_breakdown =
          \<lparr>model_probability = 0.7, bd_weak_company = 0.08,
             bd_suspicion_score = 0.04, bd_keyword_hits = 0.0,
             clamped = False\<rparr>,
        model_artifact = ''scam_detector.pkl''\<rparr>"
  by code_simp

lemma thirty_word_job_words:
  "length (py_split (case company_profile thirty_word_job of None \<Rightarrow> [] | Some s \<Rightarrow> s)) = 30"
  by code_simp

text \<open>
  Claim C7. When the caller supplies none of the three flags nor the suspicion score, every
  returned flag is 0 or 1, the returned suspicion score is the sum of the three returned
  flags and so lies between 0 and 3, and the short-profile flag is 1 exactly when the
  company profile has fewer than thirty white-space separated words: a profile of exactly
  thirty words gives 0.
\<close>

theorem derived_flags_add_up:
  assumes "predict_job m j = Inr r"
    and "missing_website_flag j = PNone" and "suspicious_email_flag j = PNone"
    and "short_profile_flag j = PNone" and "suspicion_score j = PNone"
  shows
    "sig_missing_website_flag (signals r) \<in> {0, 1} \<and>
     sig_suspicious_email_flag (signals r) \<in> {0, 1} \<and>
     sig_short_profile_flag (signals r) \<in> {0, 1} \<and>
     sig_suspicion_score (signals r) =
       sig_missing_website_flag (signals r) + sig_suspicious_email_flag (signals r)
       + sig_short_profile_flag (signals r) \<and>
     0 \<le> sig_suspicion_score (signals r) \<and> sig_suspicion_score (signals r) \<le> 3 \<and>
     sig_short_profile_flag (signals r) =
       (if length (py_split (case company_profile j of None \<Rightarrow> [] | Some s \<Rightarrow> s)) < 30
        then 1 else 0) \<and>
     (length (py_split (case company_profile j of None \<Rightarrow> [] | Some s \<Rightarrow> s)) = 30 \<longrightarrow>
        sig_short_profile_flag (signals r) = 0)"
proof -
  have mw: "py_int (or_heuristic (missing_website_flag j) (h_missing_website_flag (heur_of j)))
       = Inr (sig_missing_website_flag (signals r))"
    using assms(1) by (rule predict_job_InrE)
  have se: "py_int (or_heuristic (suspicious_email_flag j) (h_suspicious_email_flag (heur_of j)))
       = Inr (sig_suspicious_email_flag (signals r))"
    using assms(1) by (rule predict_job_InrE)
  have sp: "py_int (or_heuristic (short_profile_flag j) (h_short_profile_flag (heur_of j)))
       = Inr (sig_short_profile_flag (signals r))"
    using assms(1) by (rule predict_job_InrE)
  have ss: "py_int (or_heuristic (suspicion_score j) (h_suspicion_score (heur_of j)))
       = Inr (sig_suspicion_score (signals r))"
    using assms(1) by (rule predict_job_InrE)
  have 1: "sig_missing_website_flag (signals r) = h_missing_website_flag (heur_of j)"
    using mw assms(2) by (simp add: or_heuristic_def)
  have 2: "sig_suspicious_email_flag (signals r) = h_suspicious_email_flag (heur_of j)"
    using se assms(3) by (simp add: or_heuristic_def)
  have 3: "sig_short_profile_flag (signals r) = h_short_profile_flag (heur_of j)"
    using sp assms(4) by (simp add: or_heuristic_def)
  have 4: "sig_suspicion_score (signals r) = h_suspicion_score (heur_of j)"
    using ss assms(5) by (simp add: or_heuristic_def)
  note h = heuristic_flags_fields [of "company_profile j" "description j" "requirements j"]
  have a: "sig_missing_website_flag (signals r) \<in> {0, 1}"
    unfolding 1 using h by (rule conjunct1)
  have b: "sig_suspicious_email_flag (signals r) \<in> {0, 1}"
    unfolding 2 using h by blast
  have c: "sig_short_profile_flag (signals r) =
       (if length (py_split (case company_profile j of None \<Rightarrow> [] | Some s \<Rightarrow> s)) < 30
        then 1 else 0)"
    unfolding 3 using h by blast
  have d: "sig_suspicion_score (signals r) =
       sig_missing_website_flag (signals r) + sig_suspicious_email_flag (signals r)
       + sig_short_profile_flag (signals r)"
    unfolding 1 2 3 4 using h by blast
  have e: "sig_short_profile_flag (signals r) \<in> {0, 1}"
    unfolding c by simp
  have f: "0 \<le> sig_suspicion_score (signals r) \<and> sig_suspicion_score (signals r) \<le> 3"
    using a b e unfolding d by auto
  have g: "length (py_split (case company_profile j of None \<Rightarrow> [] | Some s \<Rightarrow> s)) = 30 \<longrightarrow>
        sig_short_profile_flag (signals r) = 0"
    unfolding c by simp
  show ?thesis using a b c d e f g by (intro conjI) blast+
qed

theorem derived_flags_add_up_witness:
  "\<exists>r. predict_job (const_model (Some [0, 1]) [0.3, 0.7]) thirty_word_job = Inr r \<and>
        length (py_split (case company_profile thirty_word_job of None \<Rightarrow> [] | Some s \<Rightarrow> s)) = 30 \<and>
        sig_short_profile_flag (signals r) = 0 \<and>
        sig_missing_website_flag (signals r) = 1 \<and>
        sig_suspicion_score (signals r) =
          sig_missing_website_flag (signals r) + sig_suspicious_email_flag (signals r)
          + sig_short_profile_flag (signals r)"
proof -
  have none: "missing_website_flag thirty_word_job = PNone"
    "suspicious_email_flag thirty_word_job = PNone"
    "short_profile_flag thirty_word_job = PNone"
    "suspicion_score thirty_word_job = PNone"
    by (simp_all add: thirty_word_job_def empty_job_def)
  note out = derived_flags_add_up [OF predict_thirty_word_job none]
  show ?thesis
    apply (intro exI conjI)
        apply (rule predict_thirty_word_job)
       apply (rule thirty_word_job_words)
    using out thirty_word_job_words apply blast
     apply simp
    using out apply blast
    done
qed

subsection \<open>Company strength\<close>

text \<open>
  Claim C9. The classification is first match wins: weak when followers are below 500 or
  employees below 20; otherwise medium when followers are between 500 and 5000;
  otherwise strong. So more than 5000 followers with fewer than 20 employees is weak.
  \<^verbatim>\<open>predict_job\<close> applies it to the coerced followers and employees when the caller
  supplies no company strength (\<^verbatim>\<open>None\<close> or the empty string), and returns the caller's
  value otherwise.
\<close>

theorem company_strength_first_match:
  "(f < 500 \<or> e < 20 \<longrightarrow> compute_company_strength f e = ''weak'') \<and>
   (500 \<le> f \<and> f \<le> 5000 \<and> 20 \<le> e \<longrightarrow> compute_company_strength f e = ''medium'') \<and>
   (5000 < f \<and> 20 \<le> e \<longrightarrow> compute_company_strength f e = ''strong'') \<and>
   (5000 < f \<and> e < 20 \<longrightarrow>
      compute_company_strength f e = ''weak'' \<and>
      compute_company_strength f e \<noteq> ''medium'' \<and>
      compute_company_strength f e \<noteq> ''strong'') \<and>
   (\<forall>m j r. predict_job m j = Inr r \<longrightarrow>
      sig_company_strength (signals r) =
        (if company_strength j = None \<or> company_strength j = Some []
         then compute_company_strength (sig_followers (signals r)) (sig_employees (signals r))
         else the (company_strength j)))"
proof (intro conjI allI impI)
  fix m j r
  assume ret: "predict_job m j = Inr r"
  from ret obtain fi ei where
    cs: "sig_company_strength (signals r) =
       (if company_strength j = None \<or> company_strength j = Some []
        then compute_company_strength fi ei else the (company_strength j))" and
    fi: "sig_followers (signals r) = fi" and ei: "sig_employees (signals r) = ei"
    by (rule predict_job_InrE)
  show "sig_company_strength (signals r) =
        (if company_strength j = None \<or> company_strength j = Some []
         then compute_company_strength (sig_followers (signals r)) (sig_employees (signals r))
         else the (company_strength j))"
    unfolding fi ei by (rule cs)
qed (auto simp: compute_company_strength_def)

theorem company_strength_first_match_witness:
  "compute_company_strength 6000 3 = ''weak'' \<and>
   compute_company_strength 499 1000 = ''weak'' \<and>
   compute_company_strength 500 20 = ''medium'' \<and>
   compute_company_strength 5000 20 = ''medium'' \<and>
   compute_company_strength 5001 20 = ''strong'' \<and>
   (\<exists>r. predict_job (const_model (Some [0, 1]) [0.3, 0.7]) scam_test = Inr r \<and>
        company_strength scam_test = None \<and> sig_company_strength (signals r) = ''weak'')"
proof -
  have a: "compute_company_strength 6000 3 = ''weak''"
    using company_strength_first_match [of 6000 3] by simp
  have b: "compute_company_strength 499 1000 = ''weak''"
    using company_strength_first_match [of 499 1000] by simp
  have c: "compute_company_strength 500 20 = ''medium''"
    using company_strength_first_match [of 500 20] by simp
  have d: "compute_company_strength 5000 20 = ''medium''"
    using company_strength_first_match [of 5000 20] by simp
  have e: "compute_company_strength 5001 20 = ''strong''"
    using company_strength_first_match [of 5001 20] by simp
  have f: "\<exists>r. predict_job (const_model (Some [0, 1]) [0.3, 0.7]) scam_test = Inr r \<and>
        company_strength scam_test = None \<and> sig_company_strength (signals r) = ''weak''"
    unfolding predict_scam_test by (simp add: scam_test_def empty_job_def)
  show ?thesis using a b c d e f by (intro conjI)
qed

end
